theory Spec2Isabelle
  imports Main "HOL-Library.Word"
begin

unbundle bit_operations_syntax

section \<open>Authenticated JSON-RPC server (electrum/jsonrpc.py)\<close>

text \<open>
  A shallow embedding of \<^verbatim>\<open>src/electrum/jsonrpc.py\<close>: the three exception classes, the
  request handler's \<^verbatim>\<open>parse_request\<close>, the \<^verbatim>\<open>authenticate\<close> method of the three server
  classes and \<^verbatim>\<open>add_user\<close>.

  Representation of Python values.
  \<^item> A \<^verbatim>\<open>str\<close> is represented by its UTF-8 encoding, a \<^typ>\<open>string\<close> (a list of 8-bit
    characters); a \<^verbatim>\<open>bytes\<close> object is the list of its bytes. On this representation
    \<^verbatim>\<open>s.encode('utf8')\<close> is the identity, \<^verbatim>\<open>b.decode('utf8')\<close> succeeds exactly on the
    well-formed byte sequences, and equality and \<^verbatim>\<open>partition\<close> at an ASCII separator
    agree with the operations on code points (UTF-8 is injective, and no ASCII byte
    occurs inside a multi-byte sequence).
  \<^item> An exception is a value of \<open>exn\<close>; a computation returns the calls it made to its
    collaborators, in order, and either the exception it raised or its result.
\<close>

subsection \<open>Exceptions\<close>

datatype exn =
    RPCAuthCredentialsInvalid
  | RPCAuthCredentialsMissing
  | RPCAuthUnsupportedType
  | Exception string
  | BinasciiError
  | UnicodeDecodeError

text \<open>
  \<^verbatim>\<open>str(e)\<close>: the \<^verbatim>\<open>__str__\<close> methods of the three classes (lines 36 to 48), and the
  argument for \<^verbatim>\<open>Exception(msg)\<close>. The text of the two library exceptions is left open.
\<close>

fun str_exn :: "exn \<Rightarrow> string" where
  "str_exn RPCAuthCredentialsInvalid = ''Authentication failed (bad credentials)''"
| "str_exn RPCAuthCredentialsMissing = ''Authentication failed (missing credentials)''"
| "str_exn RPCAuthUnsupportedType = ''Authentication failed (only basic auth is supported)''"
| "str_exn (Exception msg) = msg"

text \<open>
  \<^verbatim>\<open>repr(e)\<close>. None of the three classes overrides \<^verbatim>\<open>__repr__\<close>, so
  \<^verbatim>\<open>BaseException.__repr__\<close> applies: the class name followed by the arguments in
  parentheses; the three classes are raised without arguments. For \<open>Exception msg\<close> the
  text is exact when \<open>msg\<close> has no quote, backslash or control character (the one raise
  of the file passes \<^verbatim>\<open>'undefined'\<close>). The text of the two library exceptions is left
  open.
\<close>

fun repr :: "exn \<Rightarrow> string" where
  "repr RPCAuthCredentialsInvalid = ''RPCAuthCredentialsInvalid()''"
| "repr RPCAuthCredentialsMissing = ''RPCAuthCredentialsMissing()''"
| "repr RPCAuthUnsupportedType = ''RPCAuthUnsupportedType()''"
| "repr (Exception msg) = ''Exception('' @ [CHR 0x27] @ msg @ [CHR 0x27] @ '')''"

subsection \<open>Effects\<close>

text \<open>
  The calls a computation makes to its collaborators: the header lookup, \<^verbatim>\<open>str.partition\<close>,
  \<^verbatim>\<open>b64decode\<close>, \<^verbatim>\<open>util.constant_time_compare\<close>, \<^verbatim>\<open>time.sleep\<close> (in milliseconds),
  \<^verbatim>\<open>self.logger.exception\<close> and \<^verbatim>\<open>send_error\<close>.
\<close>

datatype event =
    HeadersGet string
  | Partition string char
  | B64Decode string
  | ConstantTimeCompare string string
  | Sleep nat
  | LoggerException string
  | SendError nat string

type_synonym 'a eff = "event list \<times> (exn + 'a)"

definition eff_return :: "'a \<Rightarrow> 'a eff" where
  "eff_return x = ([], Inr x)"

definition eff_raise :: "exn \<Rightarrow> 'a eff" where
  "eff_raise e = ([], Inl e)"

definition eff_call :: "event \<Rightarrow> (exn + 'a) \<Rightarrow> 'a eff" where
  "eff_call ev r = ([ev], r)"

definition eff_pure :: "(exn + 'a) \<Rightarrow> 'a eff" where
  "eff_pure r = ([], r)"

definition eff_bind :: "'a eff \<Rightarrow> ('a \<Rightarrow> 'b eff) \<Rightarrow> 'b eff" where
  "eff_bind m f =
     (case m of
        (t, Inl e) \<Rightarrow> (t, Inl e)
      | (t, Inr x) \<Rightarrow> (case f x of (t', r) \<Rightarrow> (t @ t', r)))"

text \<open>Python's \<^verbatim>\<open>a and b\<close> on booleans: \<open>b\<close> is evaluated only when \<open>a\<close> is true.\<close>

definition eff_and :: "bool eff \<Rightarrow> bool eff \<Rightarrow> bool eff" where
  "eff_and a b = eff_bind a (\<lambda>x. if x then b else eff_return False)"

subsection \<open>Strings\<close>

text \<open>
  \<^verbatim>\<open>s.partition(sep)\<close> for a one-character separator: the part before the first
  occurrence, the separator, the part after it; \<^verbatim>\<open>(s, '', '')\<close> when \<open>sep\<close> does not occur.
\<close>

definition str_partition :: "string \<Rightarrow> char \<Rightarrow> string \<times> string \<times> string" where
  "str_partition s sep =
     (if sep \<in> set s
      then (takeWhile (\<lambda>c. c \<noteq> sep) s, [sep], tl (dropWhile (\<lambda>c. c \<noteq> sep) s))
      else (s, [], []))"

definition partition :: "string \<Rightarrow> char \<Rightarrow> (string \<times> string \<times> string) eff" where
  "partition s sep = eff_call (Partition s sep) (Inr (str_partition s sep))"

text \<open>
  \<^verbatim>\<open>s.strip()\<close>. The ASCII characters for which \<^verbatim>\<open>str.isspace\<close> holds; \<^verbatim>\<open>command\<close> is a
  word of the request line as split at whitespace by the base handler.
\<close>

definition isspace :: "char \<Rightarrow> bool" where
  "isspace c =
     (c \<in> set [CHR 0x09, CHR 0x0A, CHR 0x0B, CHR 0x0C, CHR 0x0D,
                CHR 0x1C, CHR 0x1D, CHR 0x1E, CHR 0x1F, CHR 0x20])"

definition strip :: "string \<Rightarrow> string" where
  "strip s = rev (dropWhile isspace (rev (dropWhile isspace s)))"

subsection \<open>Standard library: base64 and UTF-8\<close>

text \<open>
  \<^verbatim>\<open>base64.b64decode(s)\<close> with its default \<^verbatim>\<open>validate=False\<close> is \<^verbatim>\<open>binascii.a2b_base64(s)\<close>
  in its non-strict mode (CPython, \<^verbatim>\<open>Modules/binascii.c\<close>): one pass over the input with
  the position in the current group of four (\<open>quad_pos\<close>), the bits left over
  (\<open>leftchar\<close>, an \<^verbatim>\<open>unsigned char\<close>) and the count of padding characters seen since the
  last data character (\<open>pads\<close>). A character outside the alphabet is skipped; a padding
  character ends the input once the group is complete; the input ends well only on
  a group boundary.
\<close>

definition table_a2b_base64 :: "char \<Rightarrow> 8 word option" where
  "table_a2b_base64 c =
     (let n = (of_char c :: nat) in
      if 65 \<le> n \<and> n \<le> 90 then Some (of_nat (n - 65))
      else if 97 \<le> n \<and> n \<le> 122 then Some (of_nat (n - 71))
      else if 48 \<le> n \<and> n \<le> 57 then Some (of_nat (n + 4))
      else if n = 43 then Some 62
      else if n = 47 then Some 63
      else None)"

definition byte_char :: "8 word \<Rightarrow> char" where
  "byte_char w = char_of (unat w)"

fun a2b_base64_loop ::
  "nat \<Rightarrow> 8 word \<Rightarrow> nat \<Rightarrow> string \<Rightarrow> string \<Rightarrow> exn + string" where
  "a2b_base64_loop quad_pos leftchar pads bin_data [] =
     (if quad_pos \<noteq> 0 then Inl BinasciiError else Inr bin_data)"
| "a2b_base64_loop quad_pos leftchar pads bin_data (c # ascii_data) =
     (if c = CHR ''='' then
        (if quad_pos \<ge> 2 \<and> quad_pos + (pads + 1) \<ge> 4 then Inr bin_data
         else a2b_base64_loop quad_pos leftchar
                (if quad_pos \<ge> 2 then pads + 1 else pads) bin_data ascii_data)
      else
        (case table_a2b_base64 c of
           None \<Rightarrow> a2b_base64_loop quad_pos leftchar pads bin_data ascii_data
         | Some this_ch \<Rightarrow>
             (if quad_pos = 0 then
                a2b_base64_loop 1 this_ch 0 bin_data ascii_data
              else if quad_pos = 1 then
                a2b_base64_loop 2 (this_ch AND 0x0f) 0
                  (bin_data @ [byte_char (push_bit 2 leftchar OR drop_bit 4 this_ch)]) ascii_data
              else if quad_pos = 2 then
                a2b_base64_loop 3 (this_ch AND 0x03) 0
                  (bin_data @ [byte_char (push_bit 4 leftchar OR drop_bit 2 this_ch)]) ascii_data
              else
                a2b_base64_loop 0 0 0
                  (bin_data @ [byte_char (push_bit 6 leftchar OR this_ch)]) ascii_data)))"

definition a2b_base64 :: "string \<Rightarrow> exn + string" where
  "a2b_base64 s = a2b_base64_loop 0 0 0 [] s"

definition b64decode :: "string \<Rightarrow> string eff" where
  "b64decode s = eff_call (B64Decode s) (a2b_base64 s)"

text \<open>
  Standard base64 (RFC 4648, section 4) as a grammar: groups of four alphabet
  characters, the last group possibly ending in one or two padding characters.
\<close>

definition b64_char :: "char \<Rightarrow> bool" where
  "b64_char c = (table_a2b_base64 c \<noteq> None)"

fun is_base64 :: "string \<Rightarrow> bool" where
  "is_base64 [] = True"
| "is_base64 [a, b, c, d] =
     (b64_char a \<and> b64_char b \<and>
      (if c = CHR ''='' then d = CHR ''=''
       else b64_char c \<and> (d = CHR ''='' \<or> b64_char d)))"
| "is_base64 (a # b # c # d # rest) =
     (b64_char a \<and> b64_char b \<and> b64_char c \<and> b64_char d \<and> is_base64 rest)"
| "is_base64 _ = False"

text \<open>
  \<^verbatim>\<open>bytes.decode('utf8')\<close> with the default strict error handling succeeds exactly on the
  well-formed UTF-8 byte sequences (no overlong form, no surrogate, nothing above
  U+10FFFF), the checks of CPython's \<^verbatim>\<open>utf8_decode\<close>.
\<close>

definition continuation :: "nat \<Rightarrow> bool" where
  "continuation b = (0x80 \<le> b \<and> b \<le> 0xBF)"

fun utf8_decodable :: "nat list \<Rightarrow> bool" where
  "utf8_decodable [] = True"
| "utf8_decodable (ch # bs) =
     (if ch < 0x80 then utf8_decodable bs
      else if ch < 0xE0 then
        (case bs of
           ch2 # r \<Rightarrow> 0xC2 \<le> ch \<and> continuation ch2 \<and> utf8_decodable r
         | _ \<Rightarrow> False)
      else if ch < 0xF0 then
        (case bs of
           ch2 # ch3 # r \<Rightarrow>
             continuation ch2 \<and> continuation ch3 \<and>
             (ch = 0xE0 \<longrightarrow> 0xA0 \<le> ch2) \<and> (ch = 0xED \<longrightarrow> ch2 < 0xA0) \<and>
             utf8_decodable r
         | _ \<Rightarrow> False)
      else if ch < 0xF5 then
        (case bs of
           ch2 # ch3 # ch4 # r \<Rightarrow>
             continuation ch2 \<and> continuation ch3 \<and> continuation ch4 \<and>
             (ch = 0xF0 \<longrightarrow> 0x90 \<le> ch2) \<and> (ch = 0xF4 \<longrightarrow> ch2 < 0x90) \<and>
             utf8_decodable r
         | _ \<Rightarrow> False)
      else False)"

subsection \<open>The helpers of electrum/util.py\<close>

text \<open>
  Modelled from the spec: \<^verbatim>\<open>util.to_bytes\<close> is not among the sources. Line 102 passes it
  the remainder of the header value, a \<^verbatim>\<open>str\<close>, and \<^verbatim>\<open>'utf8'\<close>: the UTF-8 encoding of the
  remainder, which is the remainder itself in the representation used here.
\<close>

definition to_bytes :: "string \<Rightarrow> string" where
  "to_bytes s = s"

text \<open>
  Modelled from the spec: \<^verbatim>\<open>util.to_string\<close> is not among the sources. Line 103 passes it
  the decoded \<^verbatim>\<open>bytes\<close> and \<^verbatim>\<open>'utf8'\<close>: the payload decoded as UTF-8. A payload that
  cannot be decoded is an unexpected fault, not a rejection of credentials.
\<close>

definition to_string :: "string \<Rightarrow> exn + string" where
  "to_string b = (if utf8_decodable (map of_char b) then Inr b else Inl UnicodeDecodeError)"

text \<open>
  Modelled from the spec: \<^verbatim>\<open>util.constant_time_compare\<close> is not among the sources. It
  compares two strings for exact equality; the time it takes is not modelled, the
  call is recorded.
\<close>

definition constant_time_compare :: "string \<Rightarrow> string \<Rightarrow> bool eff" where
  "constant_time_compare val1 val2 =
     eff_call (ConstantTimeCompare val1 val2) (Inr (val1 = val2))"

subsection \<open>The servers\<close>

text \<open>
  The headers of a request, as \<open>authenticate\<close> reads them: the value \<^verbatim>\<open>headers.get(name, None)\<close>
  returns for a header name.
\<close>

type_synonym headers = "string \<rightharpoonup> string"

definition headers_get :: "headers \<Rightarrow> string \<Rightarrow> string option eff" where
  "headers_get hs name = eff_call (HeadersGet name) (Inr (hs name))"

definition sleep :: "nat \<Rightarrow> unit eff" where
  "sleep ms = eff_call (Sleep ms) (Inr ())"

text \<open>Lines 78 and 79: the base class.\<close>

definition AuthenticatedJSONRPCServer_authenticate :: "headers \<Rightarrow> unit eff" where
  "AuthenticatedJSONRPCServer_authenticate hs = eff_raise (Exception ''undefined'')"

text \<open>Lines 89 to 108: the server with one user and one password.\<close>

definition PasswordProtectedJSONRPCServer_authenticate ::
  "string \<Rightarrow> string \<Rightarrow> headers \<Rightarrow> unit eff" where
  "PasswordProtectedJSONRPCServer_authenticate rpc_user rpc_password hs =
     (if rpc_password = [] then eff_return ()
      else
        eff_bind (headers_get hs ''Authorization'') (\<lambda>auth_string.
        case auth_string of
          None \<Rightarrow> eff_raise RPCAuthCredentialsMissing
        | Some auth_string \<Rightarrow>
            eff_bind (partition auth_string CHR '' '') (\<lambda>(basic, _, encoded).
            if basic \<noteq> ''Basic'' then eff_raise RPCAuthUnsupportedType
            else
              eff_bind (b64decode (to_bytes encoded)) (\<lambda>decoded.
              eff_bind (eff_pure (to_string decoded)) (\<lambda>credentials.
              eff_bind (partition credentials CHR '':'') (\<lambda>(username, _, password).
              eff_bind (eff_and (constant_time_compare username rpc_user)
                                (constant_time_compare password rpc_password)) (\<lambda>ok.
              if \<not> ok then eff_bind (sleep 50) (\<lambda>_. eff_raise RPCAuthCredentialsInvalid)
              else eff_return ())))))))"

text \<open>Lines 119 to 121: the server with user accounts.\<close>

definition AccountsJSONRPCServer_authenticate :: "headers \<Rightarrow> unit eff" where
  "AccountsJSONRPCServer_authenticate hs = eff_return ()"

datatype server =
    AuthenticatedJSONRPCServer
  | PasswordProtectedJSONRPCServer string string
  | AccountsJSONRPCServer "nat \<rightharpoonup> string"

text \<open>\<^verbatim>\<open>self.authenticate\<close>: the method of the server's class.\<close>

fun authenticate :: "server \<Rightarrow> headers \<Rightarrow> unit eff" where
  "authenticate AuthenticatedJSONRPCServer hs = AuthenticatedJSONRPCServer_authenticate hs"
| "authenticate (PasswordProtectedJSONRPCServer rpc_user rpc_password) hs =
     PasswordProtectedJSONRPCServer_authenticate rpc_user rpc_password hs"
| "authenticate (AccountsJSONRPCServer users) hs = AccountsJSONRPCServer_authenticate hs"

text \<open>
  Lines 58 to 74. A request is the handler after the original \<^verbatim>\<open>parse_request\<close> ran:
  what that call returned (it sends its own error responses, which are not modelled),
  the request method and the headers. \<open>self_authenticate\<close> is the bound method
  \<^verbatim>\<open>self.authenticate\<close> of the server the handler belongs to, \<open>authenticate self\<close> for
  the classes of the file; a subclass may override it.
\<close>

record request =
  base_parse_request :: bool
  command :: string
  headers :: headers

fun credentials_exn :: "exn \<Rightarrow> bool" where
  "credentials_exn RPCAuthCredentialsInvalid = True"
| "credentials_exn RPCAuthCredentialsMissing = True"
| "credentials_exn RPCAuthUnsupportedType = True"
| "credentials_exn _ = False"

definition parse_request :: "(headers \<Rightarrow> unit eff) \<Rightarrow> request \<Rightarrow> event list \<times> bool" where
  "parse_request self_authenticate myself =
     (if base_parse_request myself then
        (if strip (command myself) = ''OPTIONS'' then ([], True)
         else
           (case self_authenticate (headers myself) of
              (t, Inr _) \<Rightarrow> (t, True)
            | (t, Inl e) \<Rightarrow>
                (if credentials_exn e then (t @ [SendError 401 (repr e)], False)
                 else (t @ [LoggerException [], SendError 500 (repr e)], False))))
      else ([], False))"

text \<open>
  Lines 123 to 126, on the dictionary \<^verbatim>\<open>self.users\<close>: the id returned and the updated
  dictionary. \<^verbatim>\<open>len(self.users)\<close> is the number of keys.
\<close>

definition add_user :: "(nat \<rightharpoonup> string) \<Rightarrow> string \<Rightarrow> nat \<times> (nat \<rightharpoonup> string)" where
  "add_user users pubkey =
     (let user_id = card (dom users) in (user_id, users(user_id \<mapsto> pubkey)))"

text \<open>A sequence of calls of \<open>add_user\<close>: the ids returned, in order, and the final dictionary.\<close>

fun add_users :: "(nat \<rightharpoonup> string) \<Rightarrow> string list \<Rightarrow> nat list \<times> (nat \<rightharpoonup> string)" where
  "add_users users [] = ([], users)"
| "add_users users (pubkey # pubkeys) =
     (case add_user users pubkey of
        (user_id, users') \<Rightarrow>
          (case add_users users' pubkeys of (ids, users'') \<Rightarrow> (user_id # ids, users'')))"

text \<open>The calls of the comparator among the calls made.\<close>

fun comparison :: "event \<Rightarrow> bool" where
  "comparison (ConstantTimeCompare val1 val2) = True"
| "comparison _ = False"

section \<open>Auxiliary facts\<close>

subsection \<open>The calls and the outcome of the password check, branch by branch\<close>

lemma char_of_eq_iff_nat: "(char_of (n::nat) = c) = (n mod 256 = of_char c)"
  by (metis of_char_of char_of_char)

lemmas eff_defs =
  eff_return_def eff_raise_def eff_call_def eff_pure_def eff_bind_def eff_and_def

lemma password_authenticate_unfold:
  assumes "rpc_password \<noteq> []"
  shows "PasswordProtectedJSONRPCServer_authenticate rpc_user rpc_password hs =
    (case hs ''Authorization'' of
       None \<Rightarrow> ([HeadersGet ''Authorization''], Inl RPCAuthCredentialsMissing)
     | Some auth_string \<Rightarrow>
        (case str_partition auth_string CHR '' '' of (basic, sep, encoded) \<Rightarrow>
          if basic \<noteq> ''Basic'' then
            ([HeadersGet ''Authorization'', Partition auth_string CHR '' ''], Inl RPCAuthUnsupportedType)
          else
            (case a2b_base64 (to_bytes encoded) of
               Inl e \<Rightarrow>
                 ([HeadersGet ''Authorization'', Partition auth_string CHR '' '',
                   B64Decode (to_bytes encoded)], Inl e)
             | Inr decoded \<Rightarrow>
                (case to_string decoded of
                   Inl e \<Rightarrow>
                     ([HeadersGet ''Authorization'', Partition auth_string CHR '' '',
                       B64Decode (to_bytes encoded)], Inl e)
                 | Inr credentials \<Rightarrow>
                    (case str_partition credentials CHR '':'' of (username, sep', password) \<Rightarrow>
                      ([HeadersGet ''Authorization'', Partition auth_string CHR '' '',
                        B64Decode (to_bytes encoded), Partition credentials CHR '':'',
                        ConstantTimeCompare username rpc_user]
                       @ (if username = rpc_user
                          then ConstantTimeCompare password rpc_password
                               # (if password = rpc_password then [] else [Sleep 50])
                          else [Sleep 50]),
                       if username = rpc_user \<and> password = rpc_password then Inr ()
                       else Inl RPCAuthCredentialsInvalid))))))"
  using assms
  by (simp add: PasswordProtectedJSONRPCServer_authenticate_def eff_defs headers_get_def
      partition_def b64decode_def constant_time_compare_def sleep_def
      split: option.splits sum.splits prod.splits)

text \<open>What the handler does with a rejection of one of the three classes, and with any other exception.\<close>

lemma credentials_rejection_response:
  assumes "base_parse_request myself"
    and "strip (command myself) \<noteq> ''OPTIONS''"
    and "self_authenticate (headers myself) = (t, Inl e)"
  shows "parse_request self_authenticate myself =
           (if credentials_exn e then (t @ [SendError 401 (repr e)], False)
            else (t @ [LoggerException [], SendError 500 (repr e)], False))"
  using assms by (simp add: parse_request_def)

subsection \<open>The decoder\<close>

lemmas a2b_eval = a2b_base64_def table_a2b_base64_def byte_char_def char_of_eq_iff_nat

lemma a2b_alice_secret: "a2b_base64 ''YWxpY2U6c2VjcmV0'' = Inr ''alice:secret''"
  by (simp add: a2b_eval)

lemma a2b_alice_wrong: "a2b_base64 ''YWxpY2U6d3Jvbmc='' = Inr ''alice:wrong''"
  by (simp add: a2b_eval)

lemma a2b_bob_secret: "a2b_base64 ''Ym9iOnNlY3JldA=='' = Inr ''bob:secret''"
  by (simp add: a2b_eval)

lemma a2b_alice: "a2b_base64 ''YWxpY2U='' = Inr ''alice''"
  by (simp add: a2b_eval)

lemma a2b_ff: "a2b_base64 ''/w=='' = Inr [CHR 0xFF]"
  by (simp add: a2b_eval)

lemma a2b_bangs: "a2b_base64 ''!!!!'' = Inr []"
  by (simp add: a2b_eval)

lemma a2b_truncated: "a2b_base64 ''YWxpY2U'' = Inl BinasciiError"
  by (simp add: a2b_eval)

lemma table_pad: "table_a2b_base64 CHR ''='' = None"
  by (simp add: table_a2b_base64_def)

lemma b64_char_not_pad: "b64_char c \<Longrightarrow> c \<noteq> CHR ''=''"
  by (auto simp: b64_char_def table_pad)

lemma a2b_loop_error: "a2b_base64_loop q l p out s = Inl e \<Longrightarrow> e = BinasciiError"
  by (induction q l p out s rule: a2b_base64_loop.induct)
     (auto split: if_splits option.splits)

lemma a2b_base64_error: "a2b_base64 s = Inl e \<Longrightarrow> e = BinasciiError"
  unfolding a2b_base64_def by (rule a2b_loop_error)

lemma is_base64_loop:
  "is_base64 s \<Longrightarrow> \<exists>r. a2b_base64_loop 0 l p out s = Inr r"
proof (induction s arbitrary: l p out rule: is_base64.induct)
  case 1
  then show ?case by simp
next
  case (2 a b c d)
  then show ?case
    by (auto simp: b64_char_def table_pad split: if_splits)
next
  case (3 a b c d v va)
  then show ?case
    by (auto simp: b64_char_def table_pad)
qed simp_all

lemma is_base64_decodes: "is_base64 s \<Longrightarrow> \<exists>r. a2b_base64 s = Inr r"
  unfolding a2b_base64_def by (rule is_base64_loop)

subsection \<open>Partition and strip\<close>

lemma takeWhile_absent: "sep \<notin> set s \<Longrightarrow> takeWhile (\<lambda>c. c \<noteq> sep) s = s"
  by (induction s) auto

lemma dropWhile_absent: "sep \<notin> set s \<Longrightarrow> dropWhile (\<lambda>c. c \<noteq> sep) s = []"
  by (induction s) auto

lemma fst_str_partition: "fst (str_partition s sep) = takeWhile (\<lambda>c. c \<noteq> sep) s"
  by (simp add: str_partition_def takeWhile_absent)

lemma snd_str_partition:
  "snd (snd (str_partition s sep)) = drop (length (takeWhile (\<lambda>c. c \<noteq> sep) s) + 1) s"
proof -
  have "drop (Suc (length (takeWhile (\<lambda>c. c \<noteq> sep) s))) s = tl (dropWhile (\<lambda>c. c \<noteq> sep) s)"
    by (simp add: dropWhile_eq_drop drop_Suc tl_drop)
  then show ?thesis
    by (simp add: str_partition_def takeWhile_absent dropWhile_absent)
qed

lemma basic_prefix_partition:
  "str_partition (CHR ''B'' # CHR ''a'' # CHR ''s'' # CHR ''i'' # CHR ''c'' # CHR '' '' # encoded)
     CHR '' '' = (''Basic'', '' '', encoded)"
  by (simp add: str_partition_def)


lemma strip_OPTIONS: "strip ''OPTIONS'' = ''OPTIONS''"
  by (simp add: strip_def isspace_def)

lemma strip_GET: "strip ''GET'' = ''GET''"
  by (simp add: strip_def isspace_def)

subsection \<open>The registry\<close>

lemma add_users_from:
  "dom users = {0..<k} \<Longrightarrow>
   add_users users pubkeys =
     ([k..<k + length pubkeys],
      (\<lambda>i. if k \<le> i \<and> i < k + length pubkeys then Some (pubkeys ! (i - k)) else users i))"
proof (induction pubkeys arbitrary: users k)
  case Nil
  then show ?case by (auto simp: fun_eq_iff)
next
  case (Cons pubkey pubkeys)
  have step: "add_user users pubkey = (k, users(k \<mapsto> pubkey))"
    using Cons.prems by (simp add: add_user_def)
  have "dom (users(k \<mapsto> pubkey)) = {0..<Suc k}"
    using Cons.prems by (simp add: atLeast0_lessThan_Suc)
  from Cons.IH [OF this]
  have rest: "add_users (users(k \<mapsto> pubkey)) pubkeys =
      ([Suc k..<Suc k + length pubkeys],
       (\<lambda>i. if Suc k \<le> i \<and> i < Suc k + length pubkeys then Some (pubkeys ! (i - Suc k))
            else (users(k \<mapsto> pubkey)) i))" .
  have ids: "k # [Suc k..<Suc k + length pubkeys] = [k..<k + length (pubkey # pubkeys)]"
    using upt_conv_Cons [of k "Suc k + length pubkeys"] by simp
  have dict: "(\<lambda>i. if Suc k \<le> i \<and> i < Suc k + length pubkeys then Some (pubkeys ! (i - Suc k))
            else (users(k \<mapsto> pubkey)) i) =
        (\<lambda>i. if k \<le> i \<and> i < k + length (pubkey # pubkeys)
             then Some ((pubkey # pubkeys) ! (i - k)) else users i)"
    by (rule ext) (auto simp: nth_Cons' Suc_diff_Suc)
  show ?case
    unfolding add_users.simps step rest prod.case ids dict ..
qed

subsection \<open>Concrete payloads\<close>

lemma utf8_ascii_examples:
  "to_string ''alice:secret'' = Inr ''alice:secret''"
  "to_string ''alice:wrong'' = Inr ''alice:wrong''"
  "to_string ''bob:secret'' = Inr ''bob:secret''"
  "to_string ''alice'' = Inr ''alice''"
  "to_string [] = Inr []"
  "to_string [CHR 0xFF] = Inl UnicodeDecodeError"
  by (simp_all add: to_string_def)

lemmas example_eval =
  a2b_alice_secret a2b_alice_wrong a2b_bob_secret a2b_alice a2b_ff a2b_bangs a2b_truncated
  utf8_ascii_examples to_bytes_def str_partition_def

section \<open>Properties\<close>

text \<open>
  C1. With the empty string as the configured password, \<open>authenticate\<close> of the
  password-protected server returns normally for every header mapping, whatever the
  \<^verbatim>\<open>Authorization\<close> header is, and it has made no call at all by then: no header lookup,
  no partition, no base64 decoding.
\<close>

theorem authenticate_disabled:
  "authenticate (PasswordProtectedJSONRPCServer rpc_user []) hs = ([], Inr ())"
  by (simp add: PasswordProtectedJSONRPCServer_authenticate_def eff_return_def)

text \<open>
  C2 as stated fails: with user \<^verbatim>\<open>alice\<close> and password \<^verbatim>\<open>secret\<close>, the credentials
  \<^verbatim>\<open>bob:secret\<close> are extracted, the user names are compared, and the passwords are not:
  the \<^verbatim>\<open>and\<close> of line 105 does not evaluate its second operand.
\<close>

theorem username_mismatch_counterexample:
  "authenticate (PasswordProtectedJSONRPCServer ''alice'' ''secret'')
     [''Authorization'' \<mapsto> ''Basic Ym9iOnNlY3JldA==''] =
   ([HeadersGet ''Authorization'', Partition ''Basic Ym9iOnNlY3JldA=='' CHR '' '',
     B64Decode ''Ym9iOnNlY3JldA=='', Partition ''bob:secret'' CHR '':'',
     ConstantTimeCompare ''bob'' ''alice'', Sleep 50], Inl RPCAuthCredentialsInvalid)
   \<and> filter comparison (fst (authenticate (PasswordProtectedJSONRPCServer ''alice'' ''secret'')
       [''Authorization'' \<mapsto> ''Basic Ym9iOnNlY3JldA==''])) =
     [ConstantTimeCompare ''bob'' ''alice'']
   \<and> ConstantTimeCompare ''secret'' ''secret'' \<notin>
       set (fst (authenticate (PasswordProtectedJSONRPCServer ''alice'' ''secret'')
         [''Authorization'' \<mapsto> ''Basic Ym9iOnNlY3JldA=='']))"
  by (simp add: password_authenticate_unfold example_eval)

text \<open>
  C2, amended. With a non-empty configured password and credentials extracted from the
  header, the comparator is called on the user names in every case, and on the
  passwords exactly when the user names are equal; these are the only comparisons
  made, and the outcome is success exactly when both fields are equal, the rejection
  \<open>RPCAuthCredentialsInvalid\<close> otherwise.
\<close>

theorem comparisons_executed:
  assumes "rpc_password \<noteq> []"
    and "hs ''Authorization'' = Some auth_string"
    and "str_partition auth_string CHR '' '' = (''Basic'', sep, encoded)"
    and "a2b_base64 (to_bytes encoded) = Inr decoded"
    and "to_string decoded = Inr credentials"
    and "str_partition credentials CHR '':'' = (username, sep', password)"
  shows "filter comparison (fst (authenticate (PasswordProtectedJSONRPCServer rpc_user rpc_password) hs)) =
           ConstantTimeCompare username rpc_user
           # (if username = rpc_user then [ConstantTimeCompare password rpc_password] else [])
         \<and> snd (authenticate (PasswordProtectedJSONRPCServer rpc_user rpc_password) hs) =
           (if username = rpc_user \<and> password = rpc_password then Inr ()
            else Inl RPCAuthCredentialsInvalid)"
  using assms by (simp add: password_authenticate_unfold)

text \<open>The credentials \<^verbatim>\<open>alice:wrong\<close> against \<^verbatim>\<open>alice\<close> and \<^verbatim>\<open>secret\<close>: both comparisons are made.\<close>

theorem comparisons_executed_witness:
  "filter comparison (fst (authenticate (PasswordProtectedJSONRPCServer ''alice'' ''secret'')
       [''Authorization'' \<mapsto> ''Basic YWxpY2U6d3Jvbmc=''])) =
     [ConstantTimeCompare ''alice'' ''alice'', ConstantTimeCompare ''wrong'' ''secret'']
   \<and> snd (authenticate (PasswordProtectedJSONRPCServer ''alice'' ''secret'')
       [''Authorization'' \<mapsto> ''Basic YWxpY2U6d3Jvbmc='']) = Inl RPCAuthCredentialsInvalid"
proof -
  have h1: "''secret'' \<noteq> []" by simp
  have h2: "[''Authorization'' \<mapsto> ''Basic YWxpY2U6d3Jvbmc=''] ''Authorization'' =
      Some ''Basic YWxpY2U6d3Jvbmc=''" by simp
  have h3: "str_partition ''Basic YWxpY2U6d3Jvbmc='' CHR '' '' =
      (''Basic'', '' '', ''YWxpY2U6d3Jvbmc='')" by (simp add: str_partition_def)
  have h4: "a2b_base64 (to_bytes ''YWxpY2U6d3Jvbmc='') = Inr ''alice:wrong''"
    by (simp add: example_eval)
  have h5: "to_string ''alice:wrong'' = Inr ''alice:wrong''" by (simp add: example_eval)
  have h6: "str_partition ''alice:wrong'' CHR '':'' = (''alice'', '':'', ''wrong'')"
    by (simp add: str_partition_def)
  from comparisons_executed [of "''secret''" "[''Authorization'' \<mapsto> ''Basic YWxpY2U6d3Jvbmc='']"
      "''Basic YWxpY2U6d3Jvbmc=''" "'' ''" "''YWxpY2U6d3Jvbmc=''" "''alice:wrong''"
      "''alice:wrong''" "''alice''" "'':''" "''wrong''" "''alice''", OF h1 h2 h3 h4 h5 h6]
  show ?thesis by simp
qed

text \<open>
  C3 as stated fails: \<^verbatim>\<open>/w==\<close> is well-formed base64, of the single byte \<^verbatim>\<open>0xFF\<close>, which
  is not UTF-8; the outcome is neither success nor a rejection of the credentials but
  the decoding error.
\<close>

theorem undecodable_payload_counterexample:
  "is_base64 ''/w==''
   \<and> a2b_base64 ''/w=='' = Inr [CHR 0xFF]
   \<and> authenticate (PasswordProtectedJSONRPCServer ''alice'' ''secret'')
       [''Authorization'' \<mapsto> ''Basic /w==''] =
     ([HeadersGet ''Authorization'', Partition ''Basic /w=='' CHR '' '', B64Decode ''/w==''],
      Inl UnicodeDecodeError)"
  by (simp add: password_authenticate_unfold example_eval b64_char_def table_a2b_base64_def)

text \<open>
  C3, amended. With a non-empty configured password and the header value \<^verbatim>\<open>Basic\<close>, a
  space and well-formed base64, the decoding succeeds; when the decoded bytes are
  UTF-8, the user name is the part before the first colon (all of it when there is
  none), the password the part after it (empty when there is none), and the outcome
  is success when both are the configured ones and \<open>RPCAuthCredentialsInvalid\<close> when
  one of them differs.
\<close>

theorem basic_credentials_outcome:
  assumes "rpc_password \<noteq> []"
    and "hs ''Authorization'' = Some (''Basic '' @ encoded)"
    and "is_base64 encoded"
  shows "\<exists>decoded. a2b_base64 (to_bytes encoded) = Inr decoded \<and>
           (utf8_decodable (map of_char decoded) \<longrightarrow>
             (let username = takeWhile (\<lambda>c. c \<noteq> CHR '':'') decoded;
                  password = drop (length username + 1) decoded
              in snd (authenticate (PasswordProtectedJSONRPCServer rpc_user rpc_password) hs) =
                   (if username = rpc_user \<and> password = rpc_password then Inr ()
                    else Inl RPCAuthCredentialsInvalid)))"
proof -
  from assms(3) obtain decoded where d: "a2b_base64 (to_bytes encoded) = Inr decoded"
    using is_base64_decodes by (auto simp: to_bytes_def)
  obtain username sep password
    where p: "str_partition decoded CHR '':'' = (username, sep, password)"
    by (cases "str_partition decoded CHR '':''") auto
  have u: "username = takeWhile (\<lambda>c. c \<noteq> CHR '':'') decoded"
    using fst_str_partition [of decoded "CHR '':''"] by (simp add: p)
  have pw: "password = drop (length (takeWhile (\<lambda>c. c \<noteq> CHR '':'') decoded) + 1) decoded"
    using snd_str_partition [of decoded "CHR '':''"] by (simp add: p)
  have "utf8_decodable (map of_char decoded) \<Longrightarrow>
      snd (authenticate (PasswordProtectedJSONRPCServer rpc_user rpc_password) hs) =
        (if username = rpc_user \<and> password = rpc_password
         then Inr () else Inl RPCAuthCredentialsInvalid)"
    using assms(1,2) d
    by (simp add: password_authenticate_unfold basic_prefix_partition to_string_def p)
  then have "utf8_decodable (map of_char decoded) \<Longrightarrow>
      snd (authenticate (PasswordProtectedJSONRPCServer rpc_user rpc_password) hs) =
        (if takeWhile (\<lambda>c. c \<noteq> CHR '':'') decoded = rpc_user \<and>
            drop (length (takeWhile (\<lambda>c. c \<noteq> CHR '':'') decoded) + 1) decoded = rpc_password
         then Inr () else Inl RPCAuthCredentialsInvalid)"
    unfolding u pw .
  with d show ?thesis
    by (auto simp: Let_def)
qed

text \<open>
  For \<^verbatim>\<open>alice\<close> and \<^verbatim>\<open>secret\<close>: the base64 of \<^verbatim>\<open>alice:secret\<close> is accepted, that of
  \<^verbatim>\<open>alice:wrong\<close> is rejected, and so is that of \<^verbatim>\<open>alice\<close>, which has no colon.
\<close>

theorem basic_credentials_outcome_witness:
  "snd (authenticate (PasswordProtectedJSONRPCServer ''alice'' ''secret'')
       [''Authorization'' \<mapsto> ''Basic YWxpY2U6c2VjcmV0'']) = Inr ()
   \<and> snd (authenticate (PasswordProtectedJSONRPCServer ''alice'' ''secret'')
       [''Authorization'' \<mapsto> ''Basic YWxpY2U6d3Jvbmc='']) = Inl RPCAuthCredentialsInvalid
   \<and> snd (authenticate (PasswordProtectedJSONRPCServer ''alice'' ''secret'')
       [''Authorization'' \<mapsto> ''Basic YWxpY2U='']) = Inl RPCAuthCredentialsInvalid"
proof -
  have pw: "''secret'' \<noteq> []" by simp
  have b1: "is_base64 ''YWxpY2U6c2VjcmV0''" "is_base64 ''YWxpY2U6d3Jvbmc=''" "is_base64 ''YWxpY2U=''"
    by (simp_all add: b64_char_def table_a2b_base64_def)
  have h: "\<And>v. [''Authorization'' \<mapsto> ''Basic '' @ v] ''Authorization'' = Some (''Basic '' @ v)"
    by simp
  note inst = basic_credentials_outcome [where rpc_user = "''alice''"]
  from inst [where hs = "[''Authorization'' \<mapsto> ''Basic '' @ ''YWxpY2U6c2VjcmV0'']", OF pw h b1(1)]
  have 1: "snd (authenticate (PasswordProtectedJSONRPCServer ''alice'' ''secret'')
       [''Authorization'' \<mapsto> ''Basic YWxpY2U6c2VjcmV0'']) = Inr ()"
    by (simp add: example_eval)
  from inst [where hs = "[''Authorization'' \<mapsto> ''Basic '' @ ''YWxpY2U6d3Jvbmc='']", OF pw h b1(2)]
  have 2: "snd (authenticate (PasswordProtectedJSONRPCServer ''alice'' ''secret'')
       [''Authorization'' \<mapsto> ''Basic YWxpY2U6d3Jvbmc='']) = Inl RPCAuthCredentialsInvalid"
    by (simp add: example_eval)
  from inst [where hs = "[''Authorization'' \<mapsto> ''Basic '' @ ''YWxpY2U='']", OF pw h b1(3)]
  have 3: "snd (authenticate (PasswordProtectedJSONRPCServer ''alice'' ''secret'')
       [''Authorization'' \<mapsto> ''Basic YWxpY2U='']) = Inl RPCAuthCredentialsInvalid"
    by (simp add: example_eval)
  from 1 2 3 show ?thesis by simp
qed

text \<open>
  C4. A request here is one the original \<^verbatim>\<open>parse_request\<close> accepted. For a rejection of
  each of the three classes the handler sends status 401, logs nothing and returns
  \<open>False\<close>; the message it sends is \<^verbatim>\<open>repr(e)\<close>, the class name with an empty argument
  list, and not the description the class's \<^verbatim>\<open>__str__\<close> gives.
\<close>

theorem rejected_message_is_repr:
  "parse_request (authenticate (PasswordProtectedJSONRPCServer ''alice'' ''secret''))
     \<lparr>base_parse_request = True, command = ''GET'', headers = Map.empty\<rparr> =
     ([HeadersGet ''Authorization'', SendError 401 ''RPCAuthCredentialsMissing()''], False)
   \<and> parse_request (authenticate (PasswordProtectedJSONRPCServer ''alice'' ''secret''))
     \<lparr>base_parse_request = True, command = ''GET'',
      headers = [''Authorization'' \<mapsto> ''Digest xyz'']\<rparr> =
     ([HeadersGet ''Authorization'', Partition ''Digest xyz'' CHR '' '',
       SendError 401 ''RPCAuthUnsupportedType()''], False)
   \<and> parse_request (authenticate (PasswordProtectedJSONRPCServer ''alice'' ''secret''))
     \<lparr>base_parse_request = True, command = ''GET'',
      headers = [''Authorization'' \<mapsto> ''Basic YWxpY2U6d3Jvbmc='']\<rparr> =
     ([HeadersGet ''Authorization'', Partition ''Basic YWxpY2U6d3Jvbmc='' CHR '' '',
       B64Decode ''YWxpY2U6d3Jvbmc='', Partition ''alice:wrong'' CHR '':'',
       ConstantTimeCompare ''alice'' ''alice'', ConstantTimeCompare ''wrong'' ''secret'',
       Sleep 50, SendError 401 ''RPCAuthCredentialsInvalid()''], False)
   \<and> str_exn RPCAuthCredentialsMissing = ''Authentication failed (missing credentials)''
   \<and> str_exn RPCAuthUnsupportedType = ''Authentication failed (only basic auth is supported)''
   \<and> str_exn RPCAuthCredentialsInvalid = ''Authentication failed (bad credentials)''"
  by (simp add: parse_request_def strip_GET password_authenticate_unfold example_eval)

text \<open>
  C5. With a non-empty configured password, a rejection with
  \<open>RPCAuthCredentialsInvalid\<close> has the delay of 50 milliseconds as its last call, made
  once, before the exception is raised; a successful authentication makes no call
  of \<^verbatim>\<open>time.sleep\<close>.
\<close>

theorem invalid_credentials_delay:
  assumes "rpc_password \<noteq> []"
  shows "(snd (authenticate (PasswordProtectedJSONRPCServer rpc_user rpc_password) hs) =
            Inl RPCAuthCredentialsInvalid \<longrightarrow>
          (\<exists>t. fst (authenticate (PasswordProtectedJSONRPCServer rpc_user rpc_password) hs) =
                 t @ [Sleep 50] \<and> (\<forall>ms. Sleep ms \<notin> set t)))
       \<and> (snd (authenticate (PasswordProtectedJSONRPCServer rpc_user rpc_password) hs) = Inr () \<longrightarrow>
          (\<forall>ms. Sleep ms \<notin> set (fst (authenticate (PasswordProtectedJSONRPCServer rpc_user rpc_password) hs))))"
proof -
  have e: "a2b_base64 s = Inl e \<Longrightarrow> e \<noteq> RPCAuthCredentialsInvalid" for s e
    by (auto dest: a2b_base64_error)
  have u: "to_string s = Inl e \<Longrightarrow> e \<noteq> RPCAuthCredentialsInvalid" for s e
    by (auto simp: to_string_def split: if_splits)
  show ?thesis
    using assms
    by (auto simp: password_authenticate_unfold dest: e u
        split: option.splits sum.splits prod.splits if_splits)
qed

text \<open>The calls for \<^verbatim>\<open>alice:wrong\<close> end with the delay; those for \<^verbatim>\<open>alice:secret\<close> have none.\<close>

theorem invalid_credentials_delay_witness:
  "fst (authenticate (PasswordProtectedJSONRPCServer ''alice'' ''secret'')
       [''Authorization'' \<mapsto> ''Basic YWxpY2U6d3Jvbmc='']) =
     [HeadersGet ''Authorization'', Partition ''Basic YWxpY2U6d3Jvbmc='' CHR '' '',
      B64Decode ''YWxpY2U6d3Jvbmc='', Partition ''alice:wrong'' CHR '':'',
      ConstantTimeCompare ''alice'' ''alice'', ConstantTimeCompare ''wrong'' ''secret'', Sleep 50]
   \<and> snd (authenticate (PasswordProtectedJSONRPCServer ''alice'' ''secret'')
       [''Authorization'' \<mapsto> ''Basic YWxpY2U6d3Jvbmc='']) = Inl RPCAuthCredentialsInvalid
   \<and> Sleep 50 \<notin> set (fst (authenticate (PasswordProtectedJSONRPCServer ''alice'' ''secret'')
       [''Authorization'' \<mapsto> ''Basic YWxpY2U6c2VjcmV0'']))
   \<and> snd (authenticate (PasswordProtectedJSONRPCServer ''alice'' ''secret'')
       [''Authorization'' \<mapsto> ''Basic YWxpY2U6c2VjcmV0'']) = Inr ()"
proof -
  have pw: "''secret'' \<noteq> []" by simp
  have ok: "snd (authenticate (PasswordProtectedJSONRPCServer ''alice'' ''secret'')
       [''Authorization'' \<mapsto> ''Basic YWxpY2U6c2VjcmV0'']) = Inr ()"
    by (simp add: password_authenticate_unfold example_eval)
  have bad: "authenticate (PasswordProtectedJSONRPCServer ''alice'' ''secret'')
       [''Authorization'' \<mapsto> ''Basic YWxpY2U6d3Jvbmc='']
     = ([HeadersGet ''Authorization'', Partition ''Basic YWxpY2U6d3Jvbmc='' CHR '' '',
      B64Decode ''YWxpY2U6d3Jvbmc='', Partition ''alice:wrong'' CHR '':'',
      ConstantTimeCompare ''alice'' ''alice'', ConstantTimeCompare ''wrong'' ''secret'', Sleep 50],
      Inl RPCAuthCredentialsInvalid)"
    by (simp add: password_authenticate_unfold example_eval)
  from invalid_credentials_delay [OF pw, of "''alice''" "[''Authorization'' \<mapsto> ''Basic YWxpY2U6c2VjcmV0'']"] ok
  have "Sleep 50 \<notin> set (fst (authenticate (PasswordProtectedJSONRPCServer ''alice'' ''secret'')
       [''Authorization'' \<mapsto> ''Basic YWxpY2U6c2VjcmV0'']))"
    by blast
  with ok bad show ?thesis by simp
qed

text \<open>
  C6 as stated fails: the remainder \<^verbatim>\<open>!!!!\<close> is not base64, yet the decoder, which skips
  every character outside the alphabet, returns the empty payload; the credentials
  are then rejected, and the handler answers 401, not 500.
\<close>

theorem lenient_decoding_counterexample:
  "\<not> is_base64 ''!!!!''
   \<and> str_partition ''Basic !!!!'' CHR '' '' = (''Basic'', '' '', ''!!!!'')
   \<and> authenticate (PasswordProtectedJSONRPCServer ''alice'' ''secret'')
        [''Authorization'' \<mapsto> ''Basic !!!!''] =
      ([HeadersGet ''Authorization'', Partition ''Basic !!!!'' CHR '' '', B64Decode ''!!!!'',
        Partition [] CHR '':'', ConstantTimeCompare [] ''alice'', Sleep 50],
       Inl RPCAuthCredentialsInvalid)
   \<and> parse_request (authenticate (PasswordProtectedJSONRPCServer ''alice'' ''secret''))
        \<lparr>base_parse_request = True, command = ''GET'',
         headers = [''Authorization'' \<mapsto> ''Basic !!!!'']\<rparr> =
      ([HeadersGet ''Authorization'', Partition ''Basic !!!!'' CHR '' '', B64Decode ''!!!!'',
        Partition [] CHR '':'', ConstantTimeCompare [] ''alice'', Sleep 50,
        SendError 401 ''RPCAuthCredentialsInvalid()''], False)"
  by (simp add: parse_request_def strip_GET password_authenticate_unfold example_eval
      b64_char_def table_a2b_base64_def)

text \<open>
  C6, amended. With a non-empty configured password, a request accepted by the
  original \<^verbatim>\<open>parse_request\<close> whose method is not \<^verbatim>\<open>OPTIONS\<close>, and the scheme token
  \<^verbatim>\<open>Basic\<close>: when \<^verbatim>\<open>b64decode\<close> raises on the remainder, \<open>authenticate\<close> raises that
  error, \<^verbatim>\<open>binascii.Error\<close>, which is none of the three rejections; the handler logs
  it, sends status 500 and returns \<open>False\<close>. The decoder raises only on a remainder
  that is not well-formed base64.
\<close>

theorem decoding_error_is_fault:
  assumes "rpc_password \<noteq> []"
    and "base_parse_request myself"
    and "strip (command myself) \<noteq> ''OPTIONS''"
    and "headers myself ''Authorization'' = Some auth_string"
    and "str_partition auth_string CHR '' '' = (''Basic'', sep, encoded)"
    and "a2b_base64 (to_bytes encoded) = Inl e"
  shows "authenticate (PasswordProtectedJSONRPCServer rpc_user rpc_password) (headers myself) =
           ([HeadersGet ''Authorization'', Partition auth_string CHR '' '',
             B64Decode (to_bytes encoded)], Inl BinasciiError)
       \<and> \<not> credentials_exn BinasciiError
       \<and> parse_request (authenticate (PasswordProtectedJSONRPCServer rpc_user rpc_password)) myself =
           ([HeadersGet ''Authorization'', Partition auth_string CHR '' '',
             B64Decode (to_bytes encoded), LoggerException [],
             SendError 500 (repr BinasciiError)], False)
       \<and> \<not> is_base64 encoded"
proof -
  have e: "e = BinasciiError"
    using assms(6) by (rule a2b_base64_error)
  have a: "authenticate (PasswordProtectedJSONRPCServer rpc_user rpc_password) (headers myself) =
           ([HeadersGet ''Authorization'', Partition auth_string CHR '' '',
             B64Decode (to_bytes encoded)], Inl BinasciiError)"
    using assms(1,4,5,6) by (simp add: password_authenticate_unfold e)
  have "\<not> is_base64 encoded"
    using assms(6) is_base64_decodes [of encoded] by (auto simp: to_bytes_def)
  with a assms(2,3) show ?thesis
    by (simp add: parse_request_def)
qed

text \<open>The remainder \<^verbatim>\<open>YWxpY2U\<close>, seven characters with no padding.\<close>

theorem decoding_error_is_fault_witness:
  "authenticate (PasswordProtectedJSONRPCServer ''alice'' ''secret'')
       [''Authorization'' \<mapsto> ''Basic YWxpY2U''] =
     ([HeadersGet ''Authorization'', Partition ''Basic YWxpY2U'' CHR '' '', B64Decode ''YWxpY2U''],
      Inl BinasciiError)
   \<and> parse_request (authenticate (PasswordProtectedJSONRPCServer ''alice'' ''secret''))
        \<lparr>base_parse_request = True, command = ''GET'',
         headers = [''Authorization'' \<mapsto> ''Basic YWxpY2U'']\<rparr> =
     ([HeadersGet ''Authorization'', Partition ''Basic YWxpY2U'' CHR '' '', B64Decode ''YWxpY2U'',
       LoggerException [], SendError 500 (repr BinasciiError)], False)
   \<and> \<not> is_base64 ''YWxpY2U''"
proof -
  let ?r = "\<lparr>base_parse_request = True, command = ''GET'',
         headers = [''Authorization'' \<mapsto> ''Basic YWxpY2U'']\<rparr>"
  have h1: "''secret'' \<noteq> []" by simp
  have h2: "base_parse_request ?r" by simp
  have h3: "strip (command ?r) \<noteq> ''OPTIONS''" by (simp add: strip_GET)
  have h4: "headers ?r ''Authorization'' = Some ''Basic YWxpY2U''" by simp
  have h5: "str_partition ''Basic YWxpY2U'' CHR '' '' = (''Basic'', '' '', ''YWxpY2U'')"
    by (simp add: str_partition_def)
  have h6: "a2b_base64 (to_bytes ''YWxpY2U'') = Inl BinasciiError"
    by (simp add: example_eval)
  from decoding_error_is_fault [of "''secret''" ?r "''Basic YWxpY2U''" "'' ''" "''YWxpY2U''"
      BinasciiError "''alice''", OF h1 h2 h3 h4 h5 h6]
  show ?thesis by (simp add: to_bytes_def)
qed



text \<open>
  C8. For a request whose method is \<^verbatim>\<open>OPTIONS\<close> the handler makes no call and returns
  what the original \<^verbatim>\<open>parse_request\<close> returned, \<open>True\<close> for every request that one
  accepted, whatever the \<open>authenticate\<close> method of the server is: the method is not
  invoked, and nothing is sent.
\<close>

theorem options_bypass:
  assumes "strip (command myself) = ''OPTIONS''"
  shows "parse_request self_authenticate myself = ([], base_parse_request myself)
       \<and> (base_parse_request myself \<longrightarrow> parse_request self_authenticate myself = ([], True))"
  using assms by (simp add: parse_request_def)

text \<open>
  An accepted \<^verbatim>\<open>OPTIONS\<close> request without headers, under the password-protected
  server, the base server and an \<open>authenticate\<close> that always rejects.
\<close>

theorem options_bypass_witness:
  "strip ''OPTIONS'' = ''OPTIONS''
   \<and> parse_request (authenticate (PasswordProtectedJSONRPCServer ''alice'' ''secret''))
       \<lparr>base_parse_request = True, command = ''OPTIONS'', headers = Map.empty\<rparr> = ([], True)
   \<and> parse_request (authenticate AuthenticatedJSONRPCServer)
       \<lparr>base_parse_request = True, command = ''OPTIONS'', headers = Map.empty\<rparr> = ([], True)
   \<and> parse_request (\<lambda>hs. ([Sleep 50], Inl RPCAuthCredentialsInvalid))
       \<lparr>base_parse_request = True, command = ''OPTIONS'', headers = Map.empty\<rparr> = ([], True)"
proof -
  let ?r = "\<lparr>base_parse_request = True, command = ''OPTIONS'', headers = Map.empty\<rparr>"
  have h: "strip (command ?r) = ''OPTIONS''" by (simp add: strip_OPTIONS)
  from options_bypass [OF h] strip_OPTIONS show ?thesis by simp
qed

text \<open>
  C9. On a fresh registry, the calls of \<open>add_user\<close> for a list of \<open>n\<close> public keys
  return \<open>0, 1, ..., n - 1\<close> in this order and leave the dictionary that maps each
  \<open>i < n\<close> to the \<open>i\<close>-th key; after any number of the calls every id assigned so far
  maps to the key registered with it.
\<close>

theorem add_user_ids:
  "add_users Map.empty pubkeys =
     ([0..<length pubkeys], (\<lambda>i. if i < length pubkeys then Some (pubkeys ! i) else None))
   \<and> (\<forall>n \<le> length pubkeys. \<forall>i < n.
        snd (add_users Map.empty (take n pubkeys)) i = Some (pubkeys ! i))"
proof -
  have "add_users Map.empty ks =
     ([0..<length ks], (\<lambda>i. if i < length ks then Some (ks ! i) else None))" for ks
    using add_users_from [of Map.empty 0 ks] by (simp cong: if_cong)
  then show ?thesis by simp
qed

text \<open>The keys \<^verbatim>\<open>pubkey1\<close> and \<^verbatim>\<open>pubkey2\<close>: ids 0 and 1, both retrievable.\<close>

theorem add_user_ids_witness:
  "add_user Map.empty ''pubkey1'' = (0, [0 \<mapsto> ''pubkey1''])
   \<and> add_user [0 \<mapsto> ''pubkey1''] ''pubkey2'' = (1, [0 \<mapsto> ''pubkey1'', 1 \<mapsto> ''pubkey2''])
   \<and> fst (add_users Map.empty [''pubkey1'', ''pubkey2'']) = [0, 1]
   \<and> snd (add_users Map.empty [''pubkey1'', ''pubkey2'']) 0 = Some ''pubkey1''
   \<and> snd (add_users Map.empty [''pubkey1'', ''pubkey2'']) 1 = Some ''pubkey2''"
proof -
  have 1: "add_user Map.empty ''pubkey1'' = (0, [0 \<mapsto> ''pubkey1''])"
    by (simp add: add_user_def)
  have 2: "add_user [0 \<mapsto> ''pubkey1''] ''pubkey2'' = (1, [0 \<mapsto> ''pubkey1'', 1 \<mapsto> ''pubkey2''])"
    by (simp add: add_user_def)
  from add_user_ids [of "[''pubkey1'', ''pubkey2'']"]
  have e: "add_users Map.empty [''pubkey1'', ''pubkey2''] =
     ([0..<length [''pubkey1'', ''pubkey2'']],
      (\<lambda>i. if i < length [''pubkey1'', ''pubkey2''] then Some ([''pubkey1'', ''pubkey2''] ! i)
           else None))"
    by (rule conjunct1)
  have 3: "fst (add_users Map.empty [''pubkey1'', ''pubkey2'']) = [0, 1]"
    unfolding e by (simp add: upt_rec)
  have 4: "snd (add_users Map.empty [''pubkey1'', ''pubkey2'']) 0 = Some ''pubkey1''"
    unfolding e by simp
  have 5: "snd (add_users Map.empty [''pubkey1'', ''pubkey2'']) 1 = Some ''pubkey2''"
    unfolding e by simp
  from 1 2 3 4 5 show ?thesis by (simp del: add_users.simps)
qed

text \<open>
  C10. The base class's \<open>authenticate\<close> raises \<^verbatim>\<open>Exception('undefined')\<close> for every header
  mapping and makes no call; the exception is none of the three rejections. So for
  every request whose method is not \<^verbatim>\<open>OPTIONS\<close> the handler returns \<open>False\<close>, and when
  the original \<^verbatim>\<open>parse_request\<close> accepted the request it logs the exception and sends
  status 500, and does nothing else.
\<close>

theorem base_server_fails_closed:
  assumes "strip (command myself) \<noteq> ''OPTIONS''"
  shows "authenticate AuthenticatedJSONRPCServer hs = ([], Inl (Exception ''undefined''))
       \<and> \<not> credentials_exn (Exception ''undefined'')
       \<and> snd (parse_request (authenticate AuthenticatedJSONRPCServer) myself) = False
       \<and> (base_parse_request myself \<longrightarrow>
            parse_request (authenticate AuthenticatedJSONRPCServer) myself =
              ([LoggerException [], SendError 500 (repr (Exception ''undefined''))], False))"
  using assms
  by (simp add: parse_request_def AuthenticatedJSONRPCServer_authenticate_def eff_raise_def)

text \<open>A \<^verbatim>\<open>GET\<close> request with the credentials \<^verbatim>\<open>alice:secret\<close>, on the base server.\<close>

theorem base_server_fails_closed_witness:
  "parse_request (authenticate AuthenticatedJSONRPCServer)
     \<lparr>base_parse_request = True, command = ''GET'',
      headers = [''Authorization'' \<mapsto> ''Basic YWxpY2U6c2VjcmV0'']\<rparr> =
     ([LoggerException [], SendError 500 (''Exception('' @ [CHR 0x27] @ ''undefined'' @ [CHR 0x27] @ '')'')],
      False)"
proof -
  let ?r = "\<lparr>base_parse_request = True, command = ''GET'',
      headers = [''Authorization'' \<mapsto> ''Basic YWxpY2U6c2VjcmV0'']\<rparr>"
  have h: "strip (command ?r) \<noteq> ''OPTIONS''" by (simp add: strip_GET)
  from base_server_fails_closed [OF h] show ?thesis by simp
qed

end
